theory Spec2Isabelle
  imports Complex_Main "HOL-Library.Sublist" "HOL-Library.AList"
    "HOL-Library.Char_ord" "HOL-Library.List_Lexorder"
begin

section \<open>Python strings and lists\<close>

text \<open>
  Text is a \<^typ>\<open>string\<close>, one \<^typ>\<open>char\<close> per character; the development covers
  ASCII text, where Python's code points and these characters coincide.
  \<open>isspace\<close> is \<^verbatim>\<open>str.isspace\<close> on ASCII: tab, line feed, vertical tab, form feed,
  carriage return, the four separators 0x1C to 0x1F and the space. The same set is what
  \<^verbatim>\<open>str.strip()\<close>, \<^verbatim>\<open>str.split()\<close> and the regular expression class \<^verbatim>\<open>\s\<close> use.
\<close>

definition isspace :: "char \<Rightarrow> bool" where
  "isspace c = (let n = (of_char c :: nat) in (9 \<le> n \<and> n \<le> 13) \<or> (28 \<le> n \<and> n \<le> 32))"

definition is_digit :: "char \<Rightarrow> bool" where
  "is_digit c = (let n = (of_char c :: nat) in 48 \<le> n \<and> n \<le> 57)"

text \<open>\<^verbatim>\<open>s.strip()\<close> and \<^verbatim>\<open>s.strip(chars)\<close>.\<close>

definition strip :: "string \<Rightarrow> string" where
  "strip s = rev (dropWhile isspace (rev (dropWhile isspace s)))"

definition strip_chars :: "string \<Rightarrow> string \<Rightarrow> string" where
  "strip_chars chars s =
     rev (dropWhile (\<lambda>c. c \<in> set chars) (rev (dropWhile (\<lambda>c. c \<in> set chars) s)))"

text \<open>\<^verbatim>\<open>sub in s\<close>.\<close>

fun contains :: "string \<Rightarrow> string \<Rightarrow> bool" where
  "contains sub [] = (sub = [])"
| "contains sub (c # cs) = (prefix sub (c # cs) \<or> contains sub cs)"

text \<open>
  \<^verbatim>\<open>s.split(sep)\<close> for a separator that is not empty (every separator of the program is a
  literal): the pieces between the occurrences of \<open>sep\<close>, found from the left without
  overlap. The result is never empty. \<open>split1\<close> is \<^verbatim>\<open>s.split(sep, 1)\<close>, which cuts at the
  first occurrence only.
\<close>

fun split_sep :: "string \<Rightarrow> string \<Rightarrow> string list" where
  "split_sep sep [] = [[]]"
| "split_sep sep (c # cs) =
     (if sep \<noteq> [] \<and> prefix sep (c # cs)
      then [] # split_sep sep (drop (length sep) (c # cs))
      else (case split_sep sep cs of
              p # ps \<Rightarrow> (c # p) # ps
            | [] \<Rightarrow> [[c]]))"

fun split1 :: "string \<Rightarrow> string \<Rightarrow> string list" where
  "split1 sep [] = [[]]"
| "split1 sep (c # cs) =
     (if sep \<noteq> [] \<and> prefix sep (c # cs)
      then [[], drop (length sep) (c # cs)]
      else (case split1 sep cs of
              p # ps \<Rightarrow> (c # p) # ps
            | [] \<Rightarrow> [[c]]))"

text \<open>
  \<^verbatim>\<open>s.split()\<close>: the maximal runs of characters that are not whitespace. \<open>words_acc\<close>
  carries the word being read, reversed.
\<close>

fun words_acc :: "string \<Rightarrow> string \<Rightarrow> string list" where
  "words_acc w [] = (if w = [] then [] else [rev w])"
| "words_acc w (c # cs) =
     (if isspace c
      then (if w = [] then words_acc [] cs else rev w # words_acc [] cs)
      else words_acc (c # w) cs)"

definition split_ws :: "string \<Rightarrow> string list" where
  "split_ws s = words_acc [] s"

text \<open>\<^verbatim>\<open>sep.join(xs)\<close>.\<close>

fun join :: "string \<Rightarrow> string list \<Rightarrow> string" where
  "join sep [] = []"
| "join sep [x] = x"
| "join sep (x # y # ys) = x @ sep @ join sep (y # ys)"

text \<open>
  \<^verbatim>\<open>s.replace(old, new)\<close> for \<open>old\<close> not empty, which Python defines as
  \<^verbatim>\<open>new.join(s.split(old))\<close>.
\<close>

definition replace :: "string \<Rightarrow> string \<Rightarrow> string \<Rightarrow> string" where
  "replace old new s = join new (split_sep old s)"

text \<open>
  The slice \<^verbatim>\<open>xs[i:j]\<close> on Python's unbounded integers: a negative bound counts from the
  end, and both bounds are clipped to the list.
\<close>

definition py_slice :: "'a list \<Rightarrow> int \<Rightarrow> int \<Rightarrow> 'a list" where
  "py_slice xs i j =
     (let n = int (length xs);
          a = (if i < 0 then max (i + n) 0 else min i n);
          b = (if j < 0 then max (j + n) 0 else min j n)
      in take (nat (b - a)) (drop (nat a) xs))"

section \<open>Exceptions and the module namespace\<close>

text \<open>
  An exception is a value. \<open>NameError n\<close> is what evaluating the name \<open>n\<close> raises when
  no binding of it is in scope; \<open>Raised m\<close> is any other instance of \<^verbatim>\<open>Exception\<close>,
  raised by the program or by one of its collaborators.
\<close>

datatype py_error = NameError string | Raised string

definition py_bind :: "py_error + 'a \<Rightarrow> ('a \<Rightarrow> py_error + 'b) \<Rightarrow> py_error + 'b" where
  "py_bind m f = (case m of Inl e \<Rightarrow> Inl e | Inr x \<Rightarrow> f x)"

text \<open>
  A function of \<^verbatim>\<open>pipeline.py\<close> finds the names \<^verbatim>\<open>re\<close> and \<^verbatim>\<open>os\<close> in the module's global
  namespace when the line that uses them runs. The namespace is a parameter of the model,
  the list of the names bound at module level; \<open>load_global\<close> is the lookup (neither name
  is a builtin). \<open>pipeline_globals\<close> lists what \<^verbatim>\<open>pipeline.py\<close> binds: the names of its
  four import statements (lines 6 to 15), \<^verbatim>\<open>DATA_DIR\<close> and its three functions.
\<close>

definition load_global :: "string list \<Rightarrow> string \<Rightarrow> py_error + unit" where
  "load_global globals name = (if name \<in> set globals then Inr () else Inl (NameError name))"

definition pipeline_globals :: "string list" where
  "pipeline_globals =
     [''build_vector_index'',
      ''extract_claims'', ''classify_importance'', ''generate_queries'',
      ''retrieve_evidence'', ''temporal_analysis'', ''causal_evaluation'',
      ''memory_state_propagation'', ''calculate_contradiction_score'',
      ''final_decision_with_score'', ''map_claim_dependencies'',
      ''cross_claim_validation'', ''verify_counterfactual_expectations'',
      ''write_results'', ''argparse'',
      ''DATA_DIR'', ''load_text'', ''parse_decision'', ''run_pipeline'']"

section \<open>retrieval.py: chunking\<close>

text \<open>
  \<^verbatim>\<open>chunk_text\<close> (lines 41 to 50). The \<^verbatim>\<open>while\<close> loop need not end, so it is a partial
  function into \<open>option\<close>: \<open>None\<close> is the loop that never returns.
\<close>

partial_function (option) chunk_loop ::
  "string list \<Rightarrow> int \<Rightarrow> int \<Rightarrow> int \<Rightarrow> string list \<Rightarrow> string list option" where
  "chunk_loop words chunk_size overlap i chunks =
     (if i < int (length words)
      then chunk_loop words chunk_size overlap (i + (chunk_size - overlap))
             (chunks @ [join '' '' (py_slice words i (i + chunk_size))])
      else Some chunks)"

declare chunk_loop.simps [code]

definition chunk_text :: "string \<Rightarrow> int \<Rightarrow> int \<Rightarrow> string list option" where
  "chunk_text text chunk_size overlap = chunk_loop (split_ws text) chunk_size overlap 0 []"

section \<open>reasoning.py: the oracle stages and evidence retrieval\<close>

text \<open>
  Every stage but \<^verbatim>\<open>retrieve_evidence\<close> formats one prompt and returns what
  \<^verbatim>\<open>call_llm\<close> answers. A prompt is its template and the values put into it: one
  constructor for each f-string of \<^verbatim>\<open>reasoning.py\<close>, its arguments the interpolated
  values in the order in which the template names them. The oracle is any function of
  the prompt and of \<^verbatim>\<open>max_new_tokens\<close>, and it may raise.
\<close>

datatype prompt =
    ExtractClaims string
  | ClassifyImportance string
  | MapDependencies string
  | GenerateQueries string
  | TemporalAnalysis string string
  | CausalEvaluation string string string
  | MemoryStates string string string
  | CrossClaim string string string
  | Counterfactual string string string
  | ContradictionScore string string string string
  | FinalDecision string string string string string

type_synonym llm = "prompt \<Rightarrow> nat \<Rightarrow> py_error + string"

text \<open>
  A retrieved passage is the \<^verbatim>\<open>text\<close> field of a result dictionary, and the evidence
  dictionary is an association list in insertion order: \<^const>\<open>AList.update\<close> overwrites
  a key in place and appends a new one, as a Python \<^verbatim>\<open>dict\<close> does.
\<close>

type_synonym passage = string
type_synonym evidence = "(string \<times> passage list) list"

definition extract_claims :: "llm \<Rightarrow> string \<Rightarrow> py_error + string" where
  "extract_claims call_llm backstory_text = call_llm (ExtractClaims backstory_text) 800"

definition classify_importance :: "llm \<Rightarrow> string \<Rightarrow> py_error + string" where
  "classify_importance call_llm claims_text = call_llm (ClassifyImportance claims_text) 1000"

definition map_claim_dependencies :: "llm \<Rightarrow> string \<Rightarrow> py_error + string" where
  "map_claim_dependencies call_llm claims_text = call_llm (MapDependencies claims_text) 1000"

definition generate_queries :: "llm \<Rightarrow> string \<Rightarrow> py_error + string" where
  "generate_queries call_llm claims_text = call_llm (GenerateQueries claims_text) 800"

text \<open>
  \<^verbatim>\<open>retrieve_evidence\<close> (lines 101 to 119). \<open>query_line\<close> is the body of the
  \<^verbatim>\<open>try\<close> for one line: unpacking \<^verbatim>\<open>line.split(":", 1)\<close> into two names raises
  \<^verbatim>\<open>ValueError\<close> unless there are two pieces, and the search may raise. The loop
  takes the \<^verbatim>\<open>except Exception\<close> branch on any \<open>Inl\<close> and goes on with the
  dictionary as it was.
\<close>

definition query_line ::
  "(string \<Rightarrow> nat \<Rightarrow> py_error + passage list) \<Rightarrow> nat \<Rightarrow> string \<Rightarrow> evidence
     \<Rightarrow> py_error + evidence" where
  "query_line search top_k line evidence =
     (case split1 '':'' line of
        [cid, query] \<Rightarrow>
          (let cid = strip cid; query = strip query in
           if query \<noteq> [] \<and> length query > 2
           then (case search query top_k of
                   Inl e \<Rightarrow> Inl e
                 | Inr results \<Rightarrow> Inr (AList.update cid results evidence))
           else Inr evidence)
      | _ \<Rightarrow> Inl (Raised ''ValueError''))"

fun evidence_loop ::
  "(string \<Rightarrow> nat \<Rightarrow> py_error + passage list) \<Rightarrow> nat \<Rightarrow> string list \<Rightarrow> evidence
     \<Rightarrow> py_error + evidence" where
  "evidence_loop search top_k [] evidence = Inr evidence"
| "evidence_loop search top_k (line # lines) evidence =
     (if contains '':'' line \<and> strip line \<noteq> []
      then (case query_line search top_k line evidence of
              Inl e \<Rightarrow> evidence_loop search top_k lines evidence
            | Inr evidence' \<Rightarrow> evidence_loop search top_k lines evidence')
      else evidence_loop search top_k lines evidence)"

definition retrieve_evidence ::
  "('idx \<Rightarrow> string \<Rightarrow> nat \<Rightarrow> py_error + passage list) \<Rightarrow> string \<Rightarrow> 'idx \<Rightarrow> nat
     \<Rightarrow> py_error + evidence" where
  "retrieve_evidence search_index query_text index top_k =
     evidence_loop (search_index index) top_k (split_sep ''\<newline>'' query_text) []"

text \<open>The evidence block of the temporal and counterfactual prompts (lines 125 to 129).\<close>

definition format_evidence :: "evidence \<Rightarrow> string" where
  "format_evidence evidence_dict =
     concat (map (\<lambda>(cid, passages).
                    ''\<newline>'' @ cid @ '' Evidence:\<newline>'' @
                    concat (map (\<lambda>p. ''- '' @ take 400 p @ ''...\<newline>'') (take 5 passages)))
                 evidence_dict)"

definition temporal_analysis :: "llm \<Rightarrow> string \<Rightarrow> evidence \<Rightarrow> py_error + string" where
  "temporal_analysis call_llm claims_text evidence_dict =
     call_llm (TemporalAnalysis claims_text (format_evidence evidence_dict)) 3000"

definition causal_evaluation :: "llm \<Rightarrow> string \<Rightarrow> string \<Rightarrow> string \<Rightarrow> py_error + string" where
  "causal_evaluation call_llm claims_text importance_text temporal_text =
     call_llm (CausalEvaluation claims_text importance_text temporal_text) 3000"

definition memory_state_propagation ::
  "llm \<Rightarrow> string \<Rightarrow> string \<Rightarrow> string \<Rightarrow> py_error + string" where
  "memory_state_propagation call_llm claims_text temporal_text importance_text =
     call_llm (MemoryStates claims_text temporal_text importance_text) 3000"

definition cross_claim_validation ::
  "llm \<Rightarrow> string \<Rightarrow> string \<Rightarrow> string \<Rightarrow> py_error + string" where
  "cross_claim_validation call_llm claims_text causal_analysis dependencies =
     call_llm (CrossClaim claims_text causal_analysis dependencies) 2000"

definition verify_counterfactual_expectations ::
  "llm \<Rightarrow> string \<Rightarrow> evidence \<Rightarrow> string \<Rightarrow> py_error + string" where
  "verify_counterfactual_expectations call_llm claims_text evidence_dict importance_text =
     call_llm (Counterfactual claims_text importance_text (format_evidence evidence_dict)) 2500"

definition calculate_contradiction_score ::
  "llm \<Rightarrow> string \<Rightarrow> string \<Rightarrow> string \<Rightarrow> string \<Rightarrow> py_error + string" where
  "calculate_contradiction_score call_llm weighted_analysis memory_states dependency_analysis
       counterfactual_analysis =
     call_llm (ContradictionScore weighted_analysis memory_states dependency_analysis
                 counterfactual_analysis) 1000"

definition final_decision_with_score ::
  "llm \<Rightarrow> string \<Rightarrow> string \<Rightarrow> string \<Rightarrow> string \<Rightarrow> string \<Rightarrow> py_error + string" where
  "final_decision_with_score call_llm weighted_analysis memory_states score_analysis
       dependency_analysis counterfactual_analysis =
     call_llm (FinalDecision weighted_analysis memory_states score_analysis
                 dependency_analysis counterfactual_analysis) 600"

section \<open>pipeline.py: parsing the decision\<close>

text \<open>
  \<^verbatim>\<open>re.search(r'Confidence Score:\s*(0?\.\d+|1\.0)', s)\<close> (line 40), as the text of
  group 1 of the leftmost match. At one position the literal must stand first; the greedy
  \<^verbatim>\<open>\s*\<close> then takes every whitespace character (giving one back cannot help: the number
  starts with none); the first alternative is an optional \<open>0\<close>, a dot and all the digits
  that follow, at least one; the second is the text \<open>1.0\<close>.
\<close>

definition dot_digits :: "string \<Rightarrow> string option" where
  "dot_digits s =
     (case s of
        [] \<Rightarrow> None
      | c # r \<Rightarrow> if c = CHR ''.'' \<and> takeWhile is_digit r \<noteq> []
                 then Some (c # takeWhile is_digit r) else None)"

definition match_number :: "string \<Rightarrow> string option" where
  "match_number s =
     (case (case s of
              [] \<Rightarrow> None
            | c # r \<Rightarrow> if c = CHR ''0'' then map_option (Cons c) (dot_digits r)
                       else dot_digits s) of
        Some g \<Rightarrow> Some g
      | None \<Rightarrow> if prefix ''1.0'' s then Some ''1.0'' else None)"

definition match_confidence_at :: "string \<Rightarrow> string option" where
  "match_confidence_at s =
     (if prefix ''Confidence Score:'' s
      then match_number (dropWhile isspace (drop (length ''Confidence Score:'') s))
      else None)"

fun re_search_confidence :: "string \<Rightarrow> string option" where
  "re_search_confidence [] = None"
| "re_search_confidence (c # cs) =
     (case match_confidence_at (c # cs) of
        Some g \<Rightarrow> Some g
      | None \<Rightarrow> re_search_confidence cs)"

text \<open>
  \<^verbatim>\<open>float(s)\<close> on the unsigned plain decimals (\<open>12\<close>, \<open>12.\<close>, \<open>.5\<close>, \<open>0.25\<close>), as the exact
  value of the numeral; \<open>None\<close> is \<^verbatim>\<open>ValueError\<close>. Python's \<^verbatim>\<open>float\<close> reads further
  notations (signs, exponents, \<open>inf\<close>, \<open>nan\<close>), which group 1 of the expression above
  never is. A double is the nearest representable value; rounding is monotone and keeps
  0 and 1, so the bounds proved of the exact value hold of the double.
\<close>

fun int_value :: "nat \<Rightarrow> string \<Rightarrow> nat" where
  "int_value acc [] = acc"
| "int_value acc (d # ds) = int_value (10 * acc + (of_char d - 48)) ds"

fun frac_value :: "string \<Rightarrow> real" where
  "frac_value [] = 0"
| "frac_value (d # ds) = (real (of_char d - 48) + frac_value ds) / 10"

definition py_float :: "string \<Rightarrow> real option" where
  "py_float s =
     (let ip = takeWhile is_digit s; rest = dropWhile is_digit s in
      case rest of
        [] \<Rightarrow> if ip \<noteq> [] then Some (real (int_value 0 ip)) else None
      | c # fp \<Rightarrow>
          if c = CHR ''.'' \<and> list_all is_digit fp \<and> (ip \<noteq> [] \<or> fp \<noteq> [])
          then Some (real (int_value 0 ip) + frac_value fp) else None)"

text \<open>
  \<^verbatim>\<open>parse_decision\<close> (lines 26 to 57). The prediction is computed first; line 40 then
  evaluates the global name \<^verbatim>\<open>re\<close>, which raises \<^verbatim>\<open>NameError\<close> in a namespace that does
  not bind it. The bare \<^verbatim>\<open>except\<close> around \<^verbatim>\<open>float\<close> leaves the score unset.
\<close>

definition parse_decision :: "string list \<Rightarrow> string \<Rightarrow> py_error + (int \<times> real \<times> string)" where
  "parse_decision globals decision_output =
     (let prediction =
            (if contains ''Prediction: 0'' decision_output \<or> contains ''Prediction:0'' decision_output
             then 0 else (1::int))
      in case load_global globals ''re'' of
           Inl e \<Rightarrow> Inl e
         | Inr _ \<Rightarrow>
            (let confidence_score =
                   (case re_search_confidence decision_output of
                      None \<Rightarrow> None
                    | Some g \<Rightarrow> py_float g);
                 confidence_score =
                   (case confidence_score of
                      None \<Rightarrow> if prediction = 0 then 0.2 else 0.8
                    | Some x \<Rightarrow> x);
                 rationale =
                   (if contains ''Rationale:'' decision_output
                    then strip_chars [CHR 0x27]
                           (strip_chars [CHR 0x22]
                              (strip (hd (split_sep ''\<newline>''
                                 (strip (last (split_sep ''Rationale:'' decision_output)))))))
                    else ''No rationale provided'')
             in Inr (prediction, confidence_score, rationale)))"

section \<open>pipeline.py: the story loop\<close>

text \<open>
  What \<^verbatim>\<open>run_pipeline\<close> reaches outside the program is a record of collaborators: the two
  \<^verbatim>\<open>os\<close> calls, \<^verbatim>\<open>load_text\<close>, the index builder and its search, the oracle, and the CSV
  writer. Each may raise, but \<^verbatim>\<open>os.path.exists\<close>, which answers \<open>False\<close> instead.
\<close>

datatype row = SubmissionRow string int string | DebugRow string int real string

record 'idx collaborators =
  os_listdir :: "string \<Rightarrow> py_error + string list"
  os_path_exists :: "string \<Rightarrow> bool"
  load_text :: "string \<Rightarrow> py_error + string"
  build_vector_index :: "string \<Rightarrow> py_error + 'idx"
  search_index :: "'idx \<Rightarrow> string \<Rightarrow> nat \<Rightarrow> py_error + passage list"
  call_llm :: llm
  write_results :: "row list \<Rightarrow> bool \<Rightarrow> py_error + unit"

definition DATA_DIR :: string where
  "DATA_DIR = ''data''"

text \<open>\<^verbatim>\<open>os.path.join(a, b)\<close> with the POSIX separator.\<close>

definition path_join :: "string \<Rightarrow> string \<Rightarrow> string" where
  "path_join a b =
     (if prefix ''/'' b then b
      else if a = [] \<or> suffix ''/'' a then a @ b
      else a @ ''/'' @ b)"

text \<open>
  The body of the \<^verbatim>\<open>try\<close> (lines 88 to 175) for one story: every stage in the order of
  the source, each \<open>py_bind\<close> passing an exception on to the \<^verbatim>\<open>except\<close> of line 177.
  The row is built last, so nothing is appended unless every stage returned.
\<close>

definition process_story ::
  "string list \<Rightarrow> 'idx collaborators \<Rightarrow> bool \<Rightarrow> string \<Rightarrow> string \<Rightarrow> string \<Rightarrow> py_error + row" where
  "process_story globals c submission_mode story_id novel_path backstory_path =
     py_bind (load_text c novel_path) (\<lambda>novel_text.
     py_bind (load_text c backstory_path) (\<lambda>backstory_text.
     py_bind (build_vector_index c novel_text) (\<lambda>index.
     py_bind (extract_claims (call_llm c) backstory_text) (\<lambda>claims.
     py_bind (classify_importance (call_llm c) claims) (\<lambda>importance.
     py_bind (map_claim_dependencies (call_llm c) claims) (\<lambda>dependencies.
     py_bind (generate_queries (call_llm c) claims) (\<lambda>queries.
     py_bind (retrieve_evidence (search_index c) queries index 5) (\<lambda>evidence.
     py_bind (temporal_analysis (call_llm c) claims evidence) (\<lambda>temporal.
     py_bind (causal_evaluation (call_llm c) claims importance temporal) (\<lambda>weighted.
     py_bind (memory_state_propagation (call_llm c) claims temporal importance) (\<lambda>memory_states.
     py_bind (cross_claim_validation (call_llm c) claims weighted dependencies) (\<lambda>dependency_analysis.
     py_bind (verify_counterfactual_expectations (call_llm c) claims evidence importance) (\<lambda>counterfactuals.
     py_bind (calculate_contradiction_score (call_llm c) weighted memory_states
                dependency_analysis counterfactuals) (\<lambda>score_analysis.
     py_bind (final_decision_with_score (call_llm c) weighted memory_states score_analysis
                dependency_analysis counterfactuals) (\<lambda>decision.
     py_bind (parse_decision globals decision) (\<lambda>(prediction, confidence_score, rationale).
     Inr (if submission_mode then SubmissionRow story_id prediction rationale
          else DebugRow story_id prediction confidence_score rationale)))))))))))))))))"

text \<open>
  The \<^verbatim>\<open>for\<close> loop (lines 78 to 181). Lines 80, 81 and 83 evaluate the global name
  \<^verbatim>\<open>os\<close> before the \<^verbatim>\<open>try\<close> is entered, so a \<^verbatim>\<open>NameError\<close> there leaves the loop. Inside
  the \<^verbatim>\<open>try\<close>, an exception takes the \<^verbatim>\<open>continue\<close> of line 181 with \<open>results\<close> as it was.
\<close>

fun story_loop ::
  "string list \<Rightarrow> 'idx collaborators \<Rightarrow> bool \<Rightarrow> string list \<Rightarrow> row list \<Rightarrow> py_error + row list" where
  "story_loop globals c submission_mode [] results = Inr results"
| "story_loop globals c submission_mode (fname # rest) results =
     (let story_id = replace ''.txt'' [] (replace ''story_'' [] fname) in
      case load_global globals ''os'' of
        Inl e \<Rightarrow> Inl e
      | Inr _ \<Rightarrow>
         (let novel_path = path_join DATA_DIR (''story_'' @ story_id @ ''.txt'');
              backstory_path = path_join DATA_DIR (''backstory_'' @ story_id @ ''.txt'')
          in if \<not> os_path_exists c backstory_path
             then story_loop globals c submission_mode rest results
             else (case process_story globals c submission_mode story_id novel_path backstory_path of
                     Inl e \<Rightarrow> story_loop globals c submission_mode rest results
                   | Inr r \<Rightarrow> story_loop globals c submission_mode rest (results @ [r]))))"

text \<open>
  \<^verbatim>\<open>run_pipeline\<close> (lines 60 to 190). Line 65 evaluates \<^verbatim>\<open>os\<close> first. The Python function
  returns nothing; the model returns the rows it hands to \<^verbatim>\<open>write_results\<close>, and no rows
  when it writes no file.
\<close>

definition run_pipeline ::
  "string list \<Rightarrow> 'idx collaborators \<Rightarrow> bool \<Rightarrow> py_error + row list" where
  "run_pipeline globals c submission_mode =
     (case load_global globals ''os'' of
        Inl e \<Rightarrow> Inl e
      | Inr _ \<Rightarrow>
          py_bind (os_listdir c DATA_DIR) (\<lambda>names.
            let story_files = sort (filter (prefix ''story_'') names) in
            if story_files = [] then Inr []
            else py_bind (story_loop globals c submission_mode story_files []) (\<lambda>results.
                   if results \<noteq> []
                   then py_bind (write_results c results (\<not> submission_mode)) (\<lambda>_. Inr results)
                   else Inr results)))"

section \<open>Predicates used in the statements\<close>

text \<open>A word of \<^verbatim>\<open>str.split()\<close>: not empty, and free of whitespace.\<close>

definition word_ok :: "string \<Rightarrow> bool" where
  "word_ok w = (w \<noteq> [] \<and> list_all (\<lambda>c. \<not> isspace c) w)"

text \<open>
  For one line of the query block: the key and the query that \<^verbatim>\<open>retrieve_evidence\<close> reads
  from it (the text before and after the first colon, stripped), and whether the line is
  used: it has a colon, its query is longer than two characters, and the search of the
  query returns.
\<close>

definition line_cid :: "string \<Rightarrow> string" where
  "line_cid line = strip (takeWhile (\<lambda>c. c \<noteq> CHR '':'') line)"

definition line_query :: "string \<Rightarrow> string" where
  "line_query line = strip (tl (dropWhile (\<lambda>c. c \<noteq> CHR '':'') line))"

definition line_used :: "(string \<Rightarrow> nat \<Rightarrow> py_error + passage list) \<Rightarrow> nat \<Rightarrow> string \<Rightarrow> bool" where
  "line_used search top_k line =
     (contains '':'' line \<and> 2 < length (line_query line) \<and> \<not> isl (search (line_query line) top_k))"

text \<open>
  The rows one story file adds to \<open>results\<close> in a namespace that binds \<^verbatim>\<open>os\<close>: its row
  when the backstory exists and every stage returned, and none otherwise.
\<close>

definition story_rows :: "string list \<Rightarrow> 'idx collaborators \<Rightarrow> bool \<Rightarrow> string \<Rightarrow> row list" where
  "story_rows globals c submission_mode fname =
     (let story_id = replace ''.txt'' [] (replace ''story_'' [] fname);
          novel_path = path_join DATA_DIR (''story_'' @ story_id @ ''.txt'');
          backstory_path = path_join DATA_DIR (''backstory_'' @ story_id @ ''.txt'')
      in if os_path_exists c backstory_path
         then (case process_story globals c submission_mode story_id novel_path backstory_path of
                 Inl e \<Rightarrow> []
               | Inr r \<Rightarrow> [r])
         else [])"

section \<open>Facts about the string functions\<close>

lemma words_acc_ok:
  "list_all (\<lambda>c. \<not> isspace c) w \<Longrightarrow> list_all word_ok (words_acc w s)"
  by (induction s arbitrary: w) (auto simp: word_ok_def)

lemma split_ws_ok: "list_all word_ok (split_ws s)"
  by (simp add: split_ws_def words_acc_ok)

lemma words_acc_nonspace:
  "list_all (\<lambda>c. \<not> isspace c) u \<Longrightarrow> words_acc w (u @ s) = words_acc (rev u @ w) s"
  by (induction u arbitrary: w) auto

lemma isspace_space: "isspace CHR '' ''"
  by (simp add: isspace_def)

lemma words_acc_join:
  "list_all word_ok ws \<Longrightarrow> words_acc [] (join '' '' ws) = ws"
proof (induction ws rule: induct_list012)
  case 1
  then show ?case by simp
next
  case (2 x)
  then show ?case using words_acc_nonspace[of x "[]" "[]"] by (simp add: word_ok_def)
next
  case (3 x y ys)
  then show ?case
    using words_acc_nonspace[of x "[]" "'' '' @ join '' '' (y # ys)"]
    by (simp add: word_ok_def isspace_space)
qed

lemma split_ws_join: "list_all word_ok ws \<Longrightarrow> split_ws (join '' '' ws) = ws"
  by (simp add: split_ws_def words_acc_join)

lemma py_slice_nonneg:
  "0 \<le> i \<Longrightarrow> 0 \<le> n \<Longrightarrow> py_slice xs i (i + n) = take (nat n) (drop (nat i) xs)"
  by (auto simp: py_slice_def Let_def min_def max_def)

lemma list_all_take_drop: "list_all P xs \<Longrightarrow> list_all P (take n (drop k xs))"
  by (auto simp: list_all_iff dest: in_set_takeD in_set_dropD)

lemma chunk_words:
  assumes "0 \<le> i" and "0 \<le> chunk_size"
  shows "split_ws (join '' '' (py_slice (split_ws text) i (i + chunk_size)))
         = take (nat chunk_size) (drop (nat i) (split_ws text))"
  using assms by (simp add: py_slice_nonneg split_ws_join list_all_take_drop split_ws_ok)

lemma chunk_loop_invariant:
  assumes step: "overlap < chunk_size"
    and new: "\<And>j. 0 \<le> j \<Longrightarrow> Q (join '' '' (py_slice ws j (j + chunk_size)))"
  shows "0 \<le> i \<Longrightarrow> list_all Q chunks \<Longrightarrow>
         \<exists>r. chunk_loop ws chunk_size overlap i chunks = Some r \<and> list_all Q r"
proof (induction "nat (int (length ws) - i)" arbitrary: i chunks rule: less_induct)
  case less
  show ?case
  proof (cases "i < int (length ws)")
    case True
    with step have
      "nat (int (length ws) - (i + (chunk_size - overlap))) < nat (int (length ws) - i)"
      by linarith
    moreover have "0 \<le> i + (chunk_size - overlap)"
      using step less.prems(1) by linarith
    moreover have "list_all Q (chunks @ [join '' '' (py_slice ws i (i + chunk_size))])"
      using less.prems new by simp
    ultimately have
      "\<exists>r. chunk_loop ws chunk_size overlap (i + (chunk_size - overlap))
              (chunks @ [join '' '' (py_slice ws i (i + chunk_size))]) = Some r \<and> list_all Q r"
      by (rule less.hyps)
    then show ?thesis
      using True by (subst chunk_loop.simps) simp
  next
    case False
    then show ?thesis
      using less.prems by (subst chunk_loop.simps) simp
  qed
qed

section \<open>Facts about evidence retrieval\<close>

lemma contains_single: "contains [c] s \<longleftrightarrow> c \<in> set s"
  by (induction s) auto

lemma split1_single:
  "c \<in> set s \<Longrightarrow>
   split1 [c] s = [takeWhile (\<lambda>x. x \<noteq> c) s, tl (dropWhile (\<lambda>x. x \<noteq> c) s)]"
  by (induction s) auto

lemma dropWhile_keeps: "x \<in> set xs \<Longrightarrow> \<not> P x \<Longrightarrow> x \<in> set (dropWhile P xs)"
  by (induction xs) auto

lemma strip_keeps: "x \<in> set s \<Longrightarrow> \<not> isspace x \<Longrightarrow> x \<in> set (strip s)"
  by (simp add: strip_def dropWhile_keeps)

lemma colon_not_space: "\<not> isspace CHR '':''"
  by (simp add: isspace_def)

lemma strip_nonempty_colon: "contains '':'' line \<Longrightarrow> strip line \<noteq> []"
  using strip_keeps[of "CHR '':''" line] colon_not_space
  by (auto simp: contains_single)

lemma query_line_colon:
  assumes "contains '':'' line"
  shows "query_line search top_k line ev =
           (if 2 < length (line_query line)
            then (case search (line_query line) top_k of
                    Inl e \<Rightarrow> Inl e
                  | Inr results \<Rightarrow> Inr (AList.update (line_cid line) results ev))
            else Inr ev)"
proof -
  have "CHR '':'' \<in> set line"
    using assms by (simp add: contains_single)
  then have "split1 '':'' line =
      [takeWhile (\<lambda>x. x \<noteq> CHR '':'') line, tl (dropWhile (\<lambda>x. x \<noteq> CHR '':'') line)]"
    by (rule split1_single)
  then show ?thesis
    unfolding query_line_def line_query_def line_cid_def
    by (simp add: Let_def)
qed

lemma evidence_loop_fold:
  "evidence_loop search top_k lines ev =
     Inr (fold (\<lambda>line. AList.update (line_cid line) (projr (search (line_query line) top_k)))
            (filter (line_used search top_k) lines) ev)"
proof (induction lines arbitrary: ev)
  case Nil
  show ?case by simp
next
  case (Cons line lines)
  show ?case
  proof (cases "contains '':'' line")
    case False
    then show ?thesis
      using Cons.IH by (simp add: line_used_def)
  next
    case True
    note colon = this
    show ?thesis
    proof (cases "2 < length (line_query line)")
      case False
      then show ?thesis
        using colon Cons.IH
        by (simp add: line_used_def query_line_colon strip_nonempty_colon)
    next
      case True
      then show ?thesis
        using colon Cons.IH
        by (cases "search (line_query line) top_k")
           (simp_all add: line_used_def query_line_colon strip_nonempty_colon)
    qed
  qed
qed

section \<open>Facts about the decision parser\<close>

text \<open>The namespace of \<^verbatim>\<open>pipeline.py\<close> binds neither \<^verbatim>\<open>re\<close> nor \<^verbatim>\<open>os\<close>.\<close>

lemma re_not_bound: "''re'' \<notin> set pipeline_globals"
  by (simp add: pipeline_globals_def)

lemma os_not_bound: "''os'' \<notin> set pipeline_globals"
  by (simp add: pipeline_globals_def)

lemma parse_decision_unbound:
  "''re'' \<notin> set globals \<Longrightarrow> parse_decision globals s = Inl (NameError ''re'')"
  by (simp add: parse_decision_def load_global_def)

text \<open>What \<^verbatim>\<open>parse_decision\<close> returns in a namespace that binds \<^verbatim>\<open>re\<close>.\<close>

lemma parse_decision_bound:
  assumes "''re'' \<in> set globals"
  shows "parse_decision globals s =
           Inr ((if contains ''Prediction: 0'' s \<or> contains ''Prediction:0'' s then 0 else 1),
                (case (case re_search_confidence s of None \<Rightarrow> None | Some g \<Rightarrow> py_float g) of
                   None \<Rightarrow> if contains ''Prediction: 0'' s \<or> contains ''Prediction:0'' s
                           then 0.2 else 0.8
                 | Some x \<Rightarrow> x),
                (if contains ''Rationale:'' s
                 then strip_chars [CHR 0x27]
                        (strip_chars [CHR 0x22]
                           (strip (hd (split_sep ''\<newline>''
                              (strip (last (split_sep ''Rationale:'' s)))))))
                 else ''No rationale provided''))"
  using assms
  by (simp add: parse_decision_def load_global_def Let_def)

lemma prediction_by_design:
  assumes "''re'' \<in> set globals"
  shows "\<exists>prediction confidence rationale.
           parse_decision globals decision_output = Inr (prediction, confidence, rationale)
           \<and> (prediction = 0 \<or> prediction = 1)
           \<and> (prediction = 0 \<longleftrightarrow> contains ''Prediction: 0'' decision_output
                                   \<or> contains ''Prediction:0'' decision_output)"
  by (simp add: parse_decision_bound[OF assms])

lemma default_confidence_by_design:
  assumes "''re'' \<in> set globals"
    and "re_search_confidence decision_output = None"
    and "parse_decision globals decision_output = Inr (prediction, confidence, rationale)"
  shows "confidence = (if prediction = 0 then 0.2 else 0.8)"
  using assms by (auto simp: parse_decision_bound split: if_splits)

lemma unparseable_by_design:
  assumes "''re'' \<in> set globals"
    and "\<not> contains ''Prediction: 0'' decision_output"
    and "\<not> contains ''Prediction:0'' decision_output"
    and "re_search_confidence decision_output = None"
    and "\<not> contains ''Rationale:'' decision_output"
  shows "parse_decision globals decision_output = Inr (1, 0.8, ''No rationale provided'')"
  using assms by (simp add: parse_decision_bound)

text \<open>
  The rationale, in such a namespace: one line, with no single quote at either end. A
  double quote inside single quotes stays, since double quotes are stripped first.
\<close>

lemma set_strip: "set (strip s) \<subseteq> set s"
  by (auto simp: strip_def dest!: set_dropWhileD)

lemma set_strip_chars: "set (strip_chars cs s) \<subseteq> set s"
  by (auto simp: strip_chars_def dest!: set_dropWhileD)

lemma hd_split_sep_single: "c \<notin> set (hd (split_sep [c] s))"
  by (induction s) (auto split: list.splits)

lemma last_dropWhile: "dropWhile P xs \<noteq> [] \<Longrightarrow> last (dropWhile P xs) = last xs"
  using takeWhile_dropWhile_id[of P xs] last_appendR[of "dropWhile P xs" "takeWhile P xs"]
  by simp

lemma strip_chars_ends:
  assumes "strip_chars cs s \<noteq> []"
  shows "hd (strip_chars cs s) \<notin> set cs \<and> last (strip_chars cs s) \<notin> set cs"
proof -
  let ?P = "\<lambda>c. c \<in> set cs"
  let ?t = "dropWhile ?P s"
  let ?u = "dropWhile ?P (rev ?t)"
  have u: "?u \<noteq> []"
    using assms by (simp add: strip_chars_def)
  have t: "?t \<noteq> []"
  proof
    assume empty: "?t = []"
    show False using u unfolding empty by simp
  qed
  have "last (strip_chars cs s) = hd ?u"
    using u by (simp add: strip_chars_def last_rev)
  moreover have "\<not> ?P (hd ?u)"
    using u by (rule hd_dropWhile)
  moreover have "hd (strip_chars cs s) = last ?u"
    using u by (simp add: strip_chars_def hd_rev)
  moreover have "last ?u = hd ?t"
    using u t by (simp add: last_dropWhile last_rev)
  moreover have "\<not> ?P (hd ?t)"
    using t by (rule hd_dropWhile)
  ultimately show ?thesis by simp
qed

lemma rationale_by_design:
  assumes "''re'' \<in> set globals"
    and "parse_decision globals decision_output = Inr (prediction, confidence, rationale)"
  shows "CHR 0x0A \<notin> set rationale
         \<and> (rationale \<noteq> [] \<longrightarrow> hd rationale \<noteq> CHR 0x27 \<and> last rationale \<noteq> CHR 0x27)"
proof (cases "contains ''Rationale:'' decision_output")
  case False
  with assms show ?thesis
    by (auto simp: parse_decision_bound)
next
  case True
  let ?line = "hd (split_sep ''\<newline>'' (strip (last (split_sep ''Rationale:'' decision_output))))"
  from True assms have r: "rationale = strip_chars [CHR 0x27] (strip_chars [CHR 0x22] (strip ?line))"
    by (simp add: parse_decision_bound)
  have "CHR 0x0A \<notin> set ?line"
    using hd_split_sep_single[of "CHR 0x0A"] by simp
  then have "CHR 0x0A \<notin> set rationale"
    using set_strip[of ?line] set_strip_chars[of "[CHR 0x22]" "strip ?line"]
      set_strip_chars[of "[CHR 0x27]" "strip_chars [CHR 0x22] (strip ?line)"]
    unfolding r by blast
  moreover have "rationale \<noteq> [] \<longrightarrow> hd rationale \<noteq> CHR 0x27 \<and> last rationale \<noteq> CHR 0x27"
    using strip_chars_ends[of "[CHR 0x27]" "strip_chars [CHR 0x22] (strip ?line)"]
    unfolding r by simp
  ultimately show ?thesis by simp
qed

lemma quote_survives:
  "parse_decision (''re'' # pipeline_globals)
     (''Rationale: '' @ [CHR 0x27, CHR 0x22] @ ''x'' @ [CHR 0x22, CHR 0x27])
   = Inr (1, 0.8, [CHR 0x22] @ ''x'' @ [CHR 0x22])"
  by (simp add: parse_decision_def load_global_def match_confidence_at_def
        strip_def strip_chars_def isspace_def)

section \<open>Facts about the story loop\<close>

text \<open>
  In a namespace that binds \<^verbatim>\<open>os\<close> the loop never raises: it adds the rows of the stories
  that went through and goes on after a story that failed. In one that does not, the first
  story file ends it.
\<close>

lemma story_loop_rows:
  assumes "''os'' \<in> set globals"
  shows "story_loop globals c submission_mode story_files results
           = Inr (results @ concat (map (story_rows globals c submission_mode) story_files))"
  using assms
  by (induction story_files arbitrary: results)
     (auto simp: story_rows_def load_global_def Let_def split: sum.splits)

lemma story_loop_unbound:
  "''os'' \<notin> set globals \<Longrightarrow>
   story_loop globals c submission_mode (fname # rest) results = Inl (NameError ''os'')"
  by (simp add: load_global_def Let_def)

section \<open>The claims\<close>

subsection \<open>C1: the score lies between 0 and 1\<close>

text \<open>
  C1, as amended. The scoring stage computes no score and clamps none: for every input,
  \<^verbatim>\<open>calculate_contradiction_score\<close> returns what the oracle answers to the scoring prompt,
  unchanged, so whatever score the reply states, inside or outside the range from 0 to 1,
  is the score analysis.
\<close>

theorem scoring_stage_returns_reply:
  "calculate_contradiction_score call_oracle weighted_analysis memory_states
       dependency_analysis counterfactual_analysis
     = call_oracle (ContradictionScore weighted_analysis memory_states
         dependency_analysis counterfactual_analysis) 1000
   \<and> calculate_contradiction_score (\<lambda>p n. Inr reply) weighted_analysis memory_states
         dependency_analysis counterfactual_analysis
       = Inr reply"
  by (simp add: calculate_contradiction_score_def)

text \<open>
  The theorem at an oracle that answers the scoring prompt by the weighted analysis it
  finds there.
\<close>

theorem scoring_stage_returns_reply_witness:
  "calculate_contradiction_score
     (\<lambda>p n. case p of ContradictionScore w m d c \<Rightarrow> Inr (''Scored: '' @ w) | _ \<Rightarrow> Inr [])
     ''Claim 1 CONSISTENT'' ''Claim 1 GRADUAL'' ''Claim 1 VALID'' ''Claim 1 SATISFIED''
   = Inr ''Scored: Claim 1 CONSISTENT''"
  using scoring_stage_returns_reply
    [of "\<lambda>p n. case p of ContradictionScore w m d c \<Rightarrow> Inr (''Scored: '' @ w) | _ \<Rightarrow> Inr []"
        "''Claim 1 CONSISTENT''" "''Claim 1 GRADUAL''" "''Claim 1 VALID''"
        "''Claim 1 SATISFIED''"]
  by simp

text \<open>
  C1 as stated fails. One MAJOR claim with a fatal contradiction and an impossible
  transition has a penalty of 1.5 against a possible 1.0; the oracle's score of \<open>-0.5\<close>
  is what the scoring stage returns, not the clamped 0.0.
\<close>

theorem unclamped_score_counterexample:
  "calculate_contradiction_score (\<lambda>p n. Inr ''Final Score: -0.5'')
     ''Claim 1\<newline>Importance: MAJOR\<newline>Result: FATAL CONTRADICTION''
     ''Claim 1\<newline>Transition Type: IMPOSSIBLE'' [] []
   = Inr ''Final Score: -0.5''"
  by (simp add: calculate_contradiction_score_def)

subsection \<open>C2: the prediction and the threshold\<close>

text \<open>
  C2, as amended. The decision stage compares no score with 0.4: for every input,
  \<^verbatim>\<open>final_decision_with_score\<close> returns what the oracle answers to the decision prompt,
  unchanged, so whatever prediction the reply states, beside whatever score, is the
  decision text.
\<close>

theorem decision_stage_returns_reply:
  "final_decision_with_score call_oracle weighted_analysis memory_states score_analysis
       dependency_analysis counterfactual_analysis
     = call_oracle (FinalDecision weighted_analysis memory_states score_analysis
         dependency_analysis counterfactual_analysis) 600
   \<and> final_decision_with_score (\<lambda>p n. Inr reply) weighted_analysis memory_states
         score_analysis dependency_analysis counterfactual_analysis
       = Inr reply"
  by (simp add: final_decision_with_score_def)

text \<open>
  The theorem at an oracle that answers the decision prompt by the score analysis it
  finds there.
\<close>

theorem decision_stage_returns_reply_witness:
  "final_decision_with_score
     (\<lambda>p n. case p of FinalDecision w m s d c \<Rightarrow> Inr (''Decided on: '' @ s) | _ \<Rightarrow> Inr [])
     ''Claim 1 CONSISTENT'' ''Claim 1 GRADUAL'' ''Final Score: 1.0'' ''Claim 1 VALID''
     ''Claim 1 SATISFIED''
   = Inr ''Decided on: Final Score: 1.0''"
  using decision_stage_returns_reply
    [of "\<lambda>p n. case p of FinalDecision w m s d c \<Rightarrow> Inr (''Decided on: '' @ s) | _ \<Rightarrow> Inr []"
        "''Claim 1 CONSISTENT''" "''Claim 1 GRADUAL''" "''Final Score: 1.0''"
        "''Claim 1 VALID''" "''Claim 1 SATISFIED''"]
  by simp

text \<open>
  C2 as stated fails: for a score analysis of 0.1, below the threshold, the decision the
  stage returns is the oracle's, here the prediction 1.
\<close>

theorem threshold_not_applied_counterexample:
  "final_decision_with_score (\<lambda>p n. Inr ''Prediction: 1\<newline>Confidence Score: 0.1'')
     ''Claim 1\<newline>Importance: MAJOR\<newline>Result: FATAL CONTRADICTION'' []
     ''Final Score: 0.1'' [] []
   = Inr ''Prediction: 1\<newline>Confidence Score: 0.1''"
  by (simp add: final_decision_with_score_def)

subsection \<open>C3: no claim is MAJOR\<close>

text \<open>
  C3, as amended. The scorer has no default for a possible penalty of zero, since it
  divides nothing: for every input, with or without a MAJOR claim,
  \<^verbatim>\<open>calculate_contradiction_score\<close> raises exactly what the oracle call raises and returns
  exactly what the oracle call returns.
\<close>

theorem scoring_stage_fails_with_oracle:
  "(calculate_contradiction_score call_oracle weighted_analysis memory_states
        dependency_analysis counterfactual_analysis = Inl e)
     = (call_oracle (ContradictionScore weighted_analysis memory_states
          dependency_analysis counterfactual_analysis) 1000 = Inl e)
   \<and> (calculate_contradiction_score call_oracle weighted_analysis memory_states
          dependency_analysis counterfactual_analysis = Inr score_analysis)
       = (call_oracle (ContradictionScore weighted_analysis memory_states
            dependency_analysis counterfactual_analysis) 1000 = Inr score_analysis)"
  by (simp add: calculate_contradiction_score_def)

text \<open>
  The theorem at an analysis without a MAJOR claim and an oracle that fails on the
  scoring prompt: the failure is the oracle's.
\<close>

theorem scoring_stage_fails_with_oracle_witness:
  "calculate_contradiction_score
     (\<lambda>p n. case p of ContradictionScore w m d c \<Rightarrow> Inl (Raised ''HF API Error 500'')
                     | _ \<Rightarrow> Inr [])
     ''Claim 1\<newline>Importance: MINOR\<newline>Result: CONSISTENT'' [] [] []
   = Inl (Raised ''HF API Error 500'')"
  using scoring_stage_fails_with_oracle
    [of "\<lambda>p n. case p of ContradictionScore w m d c \<Rightarrow> Inl (Raised ''HF API Error 500'')
                       | _ \<Rightarrow> Inr []"
        "''Claim 1\<newline>Importance: MINOR\<newline>Result: CONSISTENT''" "[]" "[]" "[]"
        "Raised ''HF API Error 500''"]
  by simp

text \<open>
  C3 as stated fails: with analyses that name no MAJOR claim, the scorer returns the
  oracle's score of 0.0, not 1.0, and the decision stage returns the oracle's
  prediction 0, not 1.
\<close>

theorem no_major_not_defaulted_counterexample:
  "\<not> contains ''MAJOR''
       ''Claim 1\<newline>Importance: MINOR\<newline>Result: SOFT CONTRADICTION''
   \<and> calculate_contradiction_score (\<lambda>p n. Inr ''Final Score: 0.0'')
         ''Claim 1\<newline>Importance: MINOR\<newline>Result: SOFT CONTRADICTION'' [] [] []
       = Inr ''Final Score: 0.0''
   \<and> final_decision_with_score (\<lambda>p n. Inr ''Prediction: 0'')
         ''Claim 1\<newline>Importance: MINOR\<newline>Result: SOFT CONTRADICTION'' []
         ''Final Score: 0.0'' [] []
       = Inr ''Prediction: 0''"
  by (simp add: calculate_contradiction_score_def final_decision_with_score_def)

subsection \<open>C4: orphaned claims\<close>

text \<open>
  C4, as amended. The program derives no orphan status and follows no dependency edge:
  \<^verbatim>\<open>cross_claim_validation\<close> returns what the oracle answers to the prompt built from the
  claims, the causal analysis and the dependencies, so any reply is the status text of
  any input.
\<close>

theorem orphan_status_is_oracle_text:
  "cross_claim_validation call_oracle claims_text causal_analysis dependencies
     = call_oracle (CrossClaim claims_text causal_analysis dependencies) 2000
   \<and> cross_claim_validation (\<lambda>p n. Inr reply) claims_text causal_analysis dependencies
       = Inr reply"
  by (simp add: cross_claim_validation_def)

text \<open>The theorem at an oracle that repeats the dependencies it was given.\<close>

theorem orphan_status_witness:
  "cross_claim_validation
     (\<lambda>p n. case p of CrossClaim c a d \<Rightarrow> Inr (''Dependencies: '' @ d) | _ \<Rightarrow> Inr [])
     ''1. Orphaned at ten'' ''Claim 1\<newline>Result: CONSISTENT'' ''Claim 2 -> Claim 1''
   = Inr ''Dependencies: Claim 2 -> Claim 1''"
  using orphan_status_is_oracle_text
    [of "\<lambda>p n. case p of CrossClaim c a d \<Rightarrow> Inr (''Dependencies: '' @ d) | _ \<Rightarrow> Inr []"
        "''1. Orphaned at ten''" "''Claim 1\<newline>Result: CONSISTENT''" "''Claim 2 -> Claim 1''"]
  by simp

text \<open>
  C4 as stated fails: with no dependency edge at all and no fatal contradiction, the
  status the program returns for claim 1 is the oracle's \<open>CAUSALLY ORPHANED\<close>.
\<close>

theorem orphan_without_edges_counterexample:
  "cross_claim_validation (\<lambda>p n. Inr ''Claim 1\<newline>Status: CAUSALLY ORPHANED'')
     ''1. Grew up by the sea'' ''Claim 1\<newline>Result: CONSISTENT'' []
   = Inr ''Claim 1\<newline>Status: CAUSALLY ORPHANED''"
  by (simp add: cross_claim_validation_def)

subsection \<open>C5: a failing story does not stop the run\<close>

text \<open>
  C5 on the program as it is. The claim holds of the \<^verbatim>\<open>try\<close> block, as
  \<open>story_loop_rows\<close> shows for a namespace that binds \<^verbatim>\<open>os\<close>. The namespace of
  \<^verbatim>\<open>pipeline.py\<close> does not: \<^verbatim>\<open>run_pipeline\<close> raises \<^verbatim>\<open>NameError\<close> at line 65 for every
  directory, and the loop body raises it at line 80, before the \<^verbatim>\<open>try\<close>, for the first
  story file, so no later story is processed.
\<close>

theorem run_pipeline_name_error:
  "run_pipeline pipeline_globals c submission_mode = Inl (NameError ''os'')
   \<and> story_loop pipeline_globals c submission_mode (fname # rest) results
       = Inl (NameError ''os'')"
  by (simp add: run_pipeline_def load_global_def story_loop_unbound os_not_bound)

subsection \<open>C6: the rationale is one line without quotes\<close>

text \<open>
  C6 on the program as it is. The claim holds in a namespace that binds \<^verbatim>\<open>re\<close>
  (\<open>rationale_by_design\<close>). In the namespace of \<^verbatim>\<open>pipeline.py\<close> line 40 raises
  \<^verbatim>\<open>NameError\<close> before the rationale is read: for a quoted rationale of two lines
  nothing is returned, where the first line without its quotes is due.
\<close>

theorem rationale_not_extracted:
  "parse_decision pipeline_globals
     (''Rationale: '' @ [CHR 0x22] @ ''Root claim 2 contradicted'' @ [CHR 0x22]
        @ ''\<newline>second line'')
     = Inl (NameError ''re'')
   \<and> parse_decision (''re'' # pipeline_globals)
     (''Rationale: '' @ [CHR 0x22] @ ''Root claim 2 contradicted'' @ [CHR 0x22]
        @ ''\<newline>second line'')
     = Inr (1, 0.8, ''Root claim 2 contradicted'')"
  by (simp add: parse_decision_def load_global_def pipeline_globals_def match_confidence_at_def
        strip_def strip_chars_def isspace_def)

subsection \<open>C7: the default confidence\<close>

text \<open>
  C7 on the program as it is. The claim holds in a namespace that binds \<^verbatim>\<open>re\<close>
  (\<open>default_confidence_by_design\<close>). In the namespace of \<^verbatim>\<open>pipeline.py\<close> the decision
  text \<open>Prediction: 0\<close>, from which no confidence can be read, gets no confidence at
  all: line 40 raises \<^verbatim>\<open>NameError\<close>, where the default 0.2 is due.
\<close>

theorem default_confidence_not_assigned:
  "re_search_confidence ''Prediction: 0'' = None
   \<and> parse_decision pipeline_globals ''Prediction: 0'' = Inl (NameError ''re'')
   \<and> parse_decision (''re'' # pipeline_globals) ''Prediction: 0''
       = Inr (0, 0.2, ''No rationale provided'')"
  by (simp add: parse_decision_def load_global_def pipeline_globals_def match_confidence_at_def)

subsection \<open>C8: evidence retrieval never raises\<close>

text \<open>
  C8. For every query block, every search function (which may raise) and every index,
  \<^verbatim>\<open>retrieve_evidence\<close> returns a dictionary and raises nothing. The dictionary is the one
  built from the used lines alone, in order: a line without a colon, a line whose query
  has at most two characters and a line whose search raises leave it as it was.
\<close>

theorem retrieve_evidence_never_raises:
  "retrieve_evidence search query_text index top_k =
     Inr (fold (\<lambda>line. AList.update (line_cid line)
                          (projr (search index (line_query line) top_k)))
            (filter (line_used (search index) top_k) (split_sep ''\<newline>'' query_text))
            [])"
  by (simp add: retrieve_evidence_def evidence_loop_fold)

text \<open>
  The theorem at a block of four lines: one used, one with no colon, one with a query of
  two characters and one whose search raises.
\<close>

theorem retrieve_evidence_witness:
  "fold (\<lambda>line. AList.update (line_cid line)
           (projr ((\<lambda>i q k. if q = ''boom'' then Inl (Raised ''search failed'') else Inr [q])
                     () (line_query line) 5)))
     (filter (line_used ((\<lambda>i q k. if q = ''boom'' then Inl (Raised ''search failed'')
                                     else Inr [q]) ()) 5)
        (split_sep ''\<newline>''
           ''Claim 1: abc\<newline>no separator\<newline>Claim 2: ab\<newline>Claim 3: boom''))
     []
   = [(''Claim 1'', [''abc''])]"
proof -
  let ?search = "\<lambda>(i::unit) q (k::nat). if q = ''boom'' then Inl (Raised ''search failed'')
                                         else Inr [q]"
  let ?text = "''Claim 1: abc\<newline>no separator\<newline>Claim 2: ab\<newline>Claim 3: boom''"
  have run: "retrieve_evidence ?search ?text () 5 = Inr [(''Claim 1'', [''abc''])]"
    by code_simp
  show ?thesis
    by (rule Inr_inject)
       (rule trans[OF retrieve_evidence_never_raises[of ?search ?text "()" 5, symmetric] run])
qed

subsection \<open>C9: the prediction of an unparseable decision\<close>

text \<open>
  C9 on the program as it is. The claim holds in a namespace that binds \<^verbatim>\<open>re\<close>
  (\<open>prediction_by_design\<close>, \<open>unparseable_by_design\<close>). In the namespace of
  \<^verbatim>\<open>pipeline.py\<close>, \<^verbatim>\<open>parse_decision\<close> returns no prediction for any decision text: it
  raises \<^verbatim>\<open>NameError\<close> at line 40.
\<close>

theorem parse_decision_name_error:
  "parse_decision pipeline_globals decision_output = Inl (NameError ''re'')"
  by (simp add: parse_decision_unbound re_not_bound)

subsection \<open>C10: chunking terminates and bounds every chunk\<close>

text \<open>
  C10, as amended. For every text and all integers with \<open>overlap < chunk_size\<close>,
  \<^verbatim>\<open>chunk_text\<close> returns; and when moreover \<open>0 \<le> chunk_size\<close>, the words of every chunk
  it returns are at most \<open>chunk_size\<close> consecutive words of the text.
\<close>

theorem chunk_text_terminates_bounded:
  assumes "overlap < chunk_size"
  shows "\<exists>chunks. chunk_text text chunk_size overlap = Some chunks \<and>
           (0 \<le> chunk_size \<longrightarrow>
              (\<forall>c \<in> set chunks.
                 int (length (split_ws c)) \<le> chunk_size \<and>
                 (\<exists>k. split_ws c = take (nat chunk_size) (drop k (split_ws text)))))"
proof (cases "0 \<le> chunk_size")
  case True
  let ?Q = "\<lambda>c. int (length (split_ws c)) \<le> chunk_size \<and>
                 (\<exists>k. split_ws c = take (nat chunk_size) (drop k (split_ws text)))"
  have new: "?Q (join '' '' (py_slice (split_ws text) j (j + chunk_size)))" if "0 \<le> j" for j
  proof -
    have eq: "split_ws (join '' '' (py_slice (split_ws text) j (j + chunk_size)))
              = take (nat chunk_size) (drop (nat j) (split_ws text))"
      using that True by (rule chunk_words)
    have "int (length (take (nat chunk_size) (drop (nat j) (split_ws text)))) \<le> chunk_size"
      using True by simp
    with eq show ?thesis by auto
  qed
  have "\<exists>r. chunk_loop (split_ws text) chunk_size overlap 0 [] = Some r \<and> list_all ?Q r"
    using assms new by (intro chunk_loop_invariant) simp_all
  then show ?thesis
    using True by (auto simp: chunk_text_def list_all_iff)
next
  case False
  have "\<exists>r. chunk_loop (split_ws text) chunk_size overlap 0 [] = Some r \<and> list_all (\<lambda>c. True) r"
    using assms by (intro chunk_loop_invariant) simp_all
  then show ?thesis
    using False by (auto simp: chunk_text_def)
qed

text \<open>The theorem at the text \<open>a b c d e\<close> with chunks of three words overlapping by one.\<close>

theorem chunk_text_witness:
  "chunk_text ''a b c d e'' 3 1 = Some [''a b c'', ''c d e'', ''e''] \<and>
   list_all (\<lambda>c. int (length (split_ws c)) \<le> 3) [''a b c'', ''c d e'', ''e'']"
  using chunk_text_terminates_bounded[of 1 3 "''a b c d e''"]
  by (simp add: chunk_text_def chunk_loop.simps split_ws_def py_slice_def isspace_def)

text \<open>
  C10 as stated fails for a negative \<open>chunk_size\<close>: the slice \<^verbatim>\<open>words[0:-1]\<close> counts its
  bound from the end, so with \<open>chunk_size = -1\<close> and \<open>overlap = -2\<close> the first chunk of
  \<open>a b c\<close> holds two words.
\<close>

theorem chunk_text_negative_size_counterexample:
  "chunk_text ''a b c'' (-1) (-2) = Some [''a b'', [], []] \<and>
   \<not> int (length (split_ws ''a b'')) \<le> -1"
  by (simp add: chunk_text_def chunk_loop.simps split_ws_def py_slice_def isspace_def)

end
